theory Spec2Isabelle
  imports Complex_Main
begin

section \<open>JavaScript values and string operations used by the clock\<close>

text \<open>
  A value that in the source is either a string or \<open>undefined\<close> is a \<open>string option\<close>
  (\<open>None\<close> is \<open>undefined\<close>). Exceptions are values of \<open>js_error\<close>; a computation that may
  throw returns \<open>js_error + 'a\<close>, with \<open>Inl\<close> for the thrown error.
\<close>

datatype js_error = RangeError | TypeError | SyntaxError | SecurityError

text \<open>\<open>s[i]\<close> on a string: the one-character string at \<open>i\<close>, or \<open>undefined\<close> out of range.\<close>

definition js_index :: "string \<Rightarrow> nat \<Rightarrow> string option" where
  "js_index s i = (if i < length s then Some [s ! i] else None)"

text \<open>\<open>a || d\<close> where \<open>a\<close> is a string or \<open>undefined\<close>: \<open>undefined\<close> and \<open>''\<close> are falsy.\<close>

definition js_or :: "string option \<Rightarrow> string \<Rightarrow> string" where
  "js_or a d = (case a of None \<Rightarrow> d | Some s \<Rightarrow> if s = [] then d else s)"

definition digit_char :: "nat \<Rightarrow> char" where
  "digit_char d = ''0123456789'' ! (d mod 10)"

text \<open>\<open>String(n)\<close> for a non-negative integer: its decimal digits.\<close>

fun js_String :: "nat \<Rightarrow> string" where
  "js_String n =
     (if n < 10 then [digit_char n] else js_String (n div 10) @ [digit_char (n mod 10)])"

declare js_String.simps [simp del]

text \<open>\<open>s.padStart(n, c)\<close> with a one-character filler.\<close>

definition padStart :: "string \<Rightarrow> nat \<Rightarrow> char \<Rightarrow> string" where
  "padStart s n c = replicate (n - length s) c @ s"

definition is_digit :: "char \<Rightarrow> bool" where
  "is_digit c = (c \<in> set ''0123456789'')"

text \<open>A field of the result that holds exactly one character in \<open>'0'..'9'\<close>.\<close>

definition digit_field :: "string option \<Rightarrow> bool" where
  "digit_field v = (case v of Some [c] \<Rightarrow> is_digit c | _ \<Rightarrow> False)"

section \<open>The runtime: dates, time zones and the en-US formatter\<close>

text \<open>
  A \<open>Date\<close> holds a time value in milliseconds since the epoch, or is invalid (NaN).
  The hour, minute and second of a local time value are the ECMAScript abstract operations
  \<open>HourFromTime\<close>, \<open>MinFromTime\<close> and \<open>SecFromTime\<close>.
\<close>

datatype js_date = Invalid_Date | Date int

definition HourFromTime :: "int \<Rightarrow> nat" where
  "HourFromTime t = nat ((t div 3600000) mod 24)"

definition MinFromTime :: "int \<Rightarrow> nat" where
  "MinFromTime t = nat ((t div 60000) mod 60)"

definition SecFromTime :: "int \<Rightarrow> nat" where
  "SecFromTime t = nat ((t div 1000) mod 60)"

text \<open>
  What the source takes from the platform. \<open>timeZones\<close> is the time zone database:
  an identifier the engine does not accept has no entry (the \<open>Intl.DateTimeFormat\<close>
  constructor throws \<open>RangeError\<close>), an accepted one gives the zone's offset from UTC in
  milliseconds at each instant. \<open>localTZA\<close> is the offset of the system's own zone,
  \<open>systemClock\<close> the time value that \<open>new Date()\<close> reads, \<open>hourCycle24\<close> the hour cycle
  the engine uses for \<open>hour12: false\<close> (\<open>h23\<close> shows midnight as 00, \<open>h24\<close> as 24),
  and \<open>resolvedTimeZone\<close> is \<open>Intl.DateTimeFormat().resolvedOptions().timeZone\<close>.
\<close>

datatype hour_cycle = h23 | h24

record runtime =
  timeZones :: "string \<Rightarrow> (int \<Rightarrow> int) option"
  localTZA :: "int \<Rightarrow> int"
  systemClock :: int
  hourCycle24 :: hour_cycle
  resolvedTimeZone :: string

text \<open>The hour shown by the en-US pattern: \<open>hh\<close> (1 to 12) with \<open>hour12\<close>, else \<open>HH\<close> or \<open>kk\<close>.\<close>

definition intl_hour :: "hour_cycle \<Rightarrow> bool \<Rightarrow> nat \<Rightarrow> nat" where
  "intl_hour hc hour12 H =
     (if hour12 then (if H mod 12 = 0 then 12 else H mod 12)
      else if hc = h24 \<and> H = 0 then 24 else H)"

text \<open>
  \<open>new Intl.DateTimeFormat('en-US', {timeZone, hour: '2-digit', minute: '2-digit',
  second: '2-digit', hour12}).formatToParts(date)\<close>: the parts of \<open>hh:mm:ss a\<close> or
  \<open>HH:mm:ss\<close>, each a pair of the part's type and value. The constructor throws for an
  unknown time zone, \<open>formatToParts\<close> throws for an invalid date.
\<close>

type_synonym part = "string \<times> string"

definition formatToParts :: "runtime \<Rightarrow> js_date \<Rightarrow> string \<Rightarrow> bool \<Rightarrow> js_error + part list" where
  "formatToParts rt date timeZone hour12 =
     (case timeZones rt timeZone of
        None \<Rightarrow> Inl RangeError
      | Some tza \<Rightarrow>
          (case date of
             Invalid_Date \<Rightarrow> Inl RangeError
           | Date t \<Rightarrow>
               let lt = t + tza t in
               Inr ([(''hour'', padStart (js_String (intl_hour (hourCycle24 rt) hour12 (HourFromTime lt))) 2 CHR ''0''),
                     (''literal'', '':''),
                     (''minute'', padStart (js_String (MinFromTime lt)) 2 CHR ''0''),
                     (''literal'', '':''),
                     (''second'', padStart (js_String (SecFromTime lt)) 2 CHR ''0'')]
                    @ (if hour12
                       then [(''literal'', '' ''),
                             (''dayPeriod'', if HourFromTime lt < 12 then ''AM'' else ''PM'')]
                       else []))))"

section \<open>clock.js: getTimeParts\<close>

record time_parts =
  h1 :: "string option"
  h2 :: "string option"
  m1 :: "string option"
  m2 :: "string option"
  s1 :: "string option"
  s2 :: "string option"
  ampm :: string

text \<open>The body of \<open>parts.forEach\<close>: one part stored into the \<open>timeParts\<close> object.\<close>

definition store_part :: "(string \<rightharpoonup> string) \<Rightarrow> part \<Rightarrow> (string \<rightharpoonup> string)" where
  "store_part timeParts p =
     (if fst p = ''hour'' \<or> fst p = ''minute'' \<or> fst p = ''second''
      then timeParts(fst p \<mapsto> snd p)
      else if fst p = ''dayPeriod'' then timeParts(''ampm'' \<mapsto> snd p)
      else timeParts)"

text \<open>The \<open>try\<close> block after \<open>formatToParts\<close> has returned.\<close>

definition extract_digits :: "part list \<Rightarrow> time_parts" where
  "extract_digits parts =
     (let timeParts = foldl store_part Map.empty parts;
          hour = js_or (timeParts ''hour'') ''00'';
          minute = js_or (timeParts ''minute'') ''00'';
          second = js_or (timeParts ''second'') ''00''
      in \<lparr> h1 = Some (js_or (js_index hour 0) ''0''),
           h2 = Some (js_or (js_index hour 1) ''0''),
           m1 = Some (js_or (js_index minute 0) ''0''),
           m2 = Some (js_or (js_index minute 1) ''0''),
           s1 = Some (js_or (js_index second 0) ''0''),
           s2 = Some (js_or (js_index second 1) ''0''),
           ampm = js_or (timeParts ''ampm'') '''' \<rparr>)"

text \<open>The \<open>catch\<close> block: the local time of \<open>new Date()\<close>.\<close>

definition fallback :: "runtime \<Rightarrow> bool \<Rightarrow> time_parts" where
  "fallback rt is12h =
     (let now = systemClock rt + localTZA rt (systemClock rt);
          hours0 = HourFromTime now;
          ampm0 = (if is12h then (if hours0 \<ge> 12 then ''PM'' else ''AM'') else '''');
          hours = (if is12h then (if hours0 mod 12 = 0 then 12 else hours0 mod 12) else hours0);
          h = padStart (js_String hours) 2 CHR ''0'';
          m = padStart (js_String (MinFromTime now)) 2 CHR ''0'';
          s = padStart (js_String (SecFromTime now)) 2 CHR ''0''
      in \<lparr> h1 = js_index h 0, h2 = js_index h 1,
           m1 = js_index m 0, m2 = js_index m 1,
           s1 = js_index s 0, s2 = js_index s 1,
           ampm = ampm0 \<rparr>)"

text \<open>
  \<open>getTimeParts(date, {timezone, is12h})\<close>: whatever the \<open>try\<close> block throws is caught,
  and the \<open>catch\<close> block returns the fallback.
\<close>

definition getTimeParts :: "runtime \<Rightarrow> js_date \<Rightarrow> string \<Rightarrow> bool \<Rightarrow> js_error + time_parts" where
  "getTimeParts rt date timezone is12h =
     (case formatToParts rt date timezone is12h of
        Inr parts \<Rightarrow> Inr (extract_digits parts)
      | Inl error \<Rightarrow> Inr (fallback rt is12h))"

text \<open>
  The hour of day (0 to 23) of the instant that \<open>getTimeParts\<close> formats: \<open>date\<close> in
  \<open>timezone\<close> when the formatter succeeds, \<open>new Date()\<close> in the local zone otherwise.
\<close>

definition hour_of_day :: "runtime \<Rightarrow> js_date \<Rightarrow> string \<Rightarrow> nat" where
  "hour_of_day rt date timezone =
     (case (timeZones rt timezone, date) of
        (Some tza, Date t) \<Rightarrow> HourFromTime (t + tza t)
      | _ \<Rightarrow> HourFromTime (systemClock rt + localTZA rt (systemClock rt)))"

text \<open>All six digit fields hold one character in \<open>'0'..'9'\<close>.\<close>

definition six_digits :: "time_parts \<Rightarrow> bool" where
  "six_digits r = (digit_field (h1 r) \<and> digit_field (h2 r) \<and> digit_field (m1 r) \<and>
                   digit_field (m2 r) \<and> digit_field (s1 r) \<and> digit_field (s2 r))"

text \<open>
  A runtime to evaluate on: it knows the zones \<open>UTC\<close> (offset 0) and \<open>Asia/Tokyo\<close>
  (nine hours ahead), its own zone is one hour ahead of UTC, and its clock reads
  13:05:09 UTC on the first day of the epoch.
\<close>

definition example_runtime :: runtime where
  "example_runtime =
     \<lparr> timeZones = (\<lambda>id. if id = ''UTC'' then Some (\<lambda>t. 0)
                          else if id = ''Asia/Tokyo'' then Some (\<lambda>t. 32400000)
                          else None),
       localTZA = (\<lambda>t. 3600000),
       systemClock = 47109000,
       hourCycle24 = h23,
       resolvedTimeZone = ''Europe/Paris'' \<rparr>"

section \<open>renderer.js: render and resetState\<close>

text \<open>
  A DOM element as far as the renderer touches it: its text and its class list.
  The module state is \<open>clockElements\<close> (a key without an element has no entry; the
  AM/PM indicator is stored under \<open>ampm\<close>) and \<open>previousTime\<close>. \<open>timeouts\<close> holds the
  callbacks scheduled with \<open>setTimeout\<close> that have not run yet, each with the time at
  which it is due (milliseconds) and the key of the element it captured.
\<close>

record element =
  textContent :: string
  classList :: "string set"

record renderer =
  clockElements :: "string \<rightharpoonup> element"
  previousTime :: string
  timeouts :: "(int \<times> string) list"

definition keys :: "string list" where
  "keys = [''h1'', ''h2'', ''m1'', ''m2'', ''s1'', ''s2'']"

text \<open>\<open>timeParts[key]\<close> for a digit key.\<close>

definition tp_get :: "time_parts \<Rightarrow> string \<Rightarrow> string option" where
  "tp_get timeParts key =
     (if key = ''h1'' then h1 timeParts else if key = ''h2'' then h2 timeParts
      else if key = ''m1'' then m1 timeParts else if key = ''m2'' then m2 timeParts
      else if key = ''s1'' then s1 timeParts else if key = ''s2'' then s2 timeParts
      else None)"

text \<open>An \<open>undefined\<close> element of an array joins as the empty string.\<close>

definition js_text :: "string option \<Rightarrow> string" where
  "js_text v = (case v of None \<Rightarrow> [] | Some s \<Rightarrow> s)"

definition currentTime :: "time_parts \<Rightarrow> string" where
  "currentTime timeParts = concat (map (\<lambda>key. js_text (tp_get timeParts key)) keys)"

text \<open>
  The callback of \<open>keys.forEach((key, index) => ...)\<close> in \<open>render\<close>, run at time \<open>now\<close>:
  a key without element is skipped; a digit that differs from \<open>previousTime[index]\<close> is
  written, the class \<open>flip-animation\<close> is removed and added again, and its removal is
  scheduled 600 ms later.
\<close>

definition render_digit :: "int \<Rightarrow> time_parts \<Rightarrow> renderer \<Rightarrow> string \<times> nat \<Rightarrow> renderer" where
  "render_digit now timeParts st ki =
     (case clockElements st (fst ki) of
        None \<Rightarrow> st
      | Some element \<Rightarrow>
          let newDigit = tp_get timeParts (fst ki);
              oldDigit = js_index (previousTime st) (snd ki)
          in if newDigit \<noteq> oldDigit
             then st\<lparr> clockElements := (clockElements st)(fst ki \<mapsto>
                         element\<lparr> textContent := js_text newDigit,
                                  classList := insert ''flip-animation''
                                                 (classList element - {''flip-animation''}) \<rparr>),
                       timeouts := timeouts st @ [(now + 600, fst ki)] \<rparr>
             else st)"

definition render_ampm :: "time_parts \<Rightarrow> renderer \<Rightarrow> renderer" where
  "render_ampm timeParts st =
     (case clockElements st ''ampm'' of
        None \<Rightarrow> st
      | Some ampmElement \<Rightarrow>
          if ampm timeParts \<noteq> []
          then st\<lparr> clockElements := (clockElements st)(''ampm'' \<mapsto>
                      ampmElement\<lparr> textContent := ampm timeParts,
                                    classList := insert ''show'' (classList ampmElement) \<rparr>) \<rparr>
          else st\<lparr> clockElements := (clockElements st)(''ampm'' \<mapsto>
                      ampmElement\<lparr> classList := classList ampmElement - {''show''} \<rparr>) \<rparr>)"

definition render :: "int \<Rightarrow> time_parts \<Rightarrow> renderer \<Rightarrow> renderer" where
  "render now timeParts st =
     (render_ampm timeParts
        (foldl (render_digit now timeParts) st (zip keys [0..<length keys])))
      \<lparr> previousTime := currentTime timeParts \<rparr>"

definition resetState :: "renderer \<Rightarrow> renderer" where
  "resetState st = st\<lparr> previousTime := ''000000'' \<rparr>"

text \<open>
  The positions at which a render at time \<open>now\<close> starts a flip: those whose key has a
  timeout among the ones this render scheduled.
\<close>

definition changed_positions :: "int \<Rightarrow> time_parts \<Rightarrow> renderer \<Rightarrow> nat list" where
  "changed_positions now timeParts st =
     filter (\<lambda>i. (now + 600, keys ! i) \<in>
                   set (drop (length (timeouts st)) (timeouts (render now timeParts st))))
            [0..<length keys]"

text \<open>
  The timer callback \<open>() => element.classList.remove('flip-animation')\<close>, and the event
  loop up to time \<open>now\<close>: every callback that is due runs, in the order it was scheduled.
\<close>

definition timeout_callback :: "renderer \<Rightarrow> string \<Rightarrow> renderer" where
  "timeout_callback st key =
     (case clockElements st key of
        None \<Rightarrow> st
      | Some element \<Rightarrow>
          st\<lparr> clockElements := (clockElements st)(key \<mapsto>
                 element\<lparr> classList := classList element - {''flip-animation''} \<rparr>) \<rparr>)"

definition run_timeouts :: "int \<Rightarrow> renderer \<Rightarrow> renderer" where
  "run_timeouts now st =
     foldl timeout_callback
       (st\<lparr> timeouts := filter (\<lambda>t. now < fst t) (timeouts st) \<rparr>)
       (map snd (filter (\<lambda>t. fst t \<le> now) (timeouts st)))"

text \<open>Whether the element of \<open>key\<close> carries the class \<open>flip-animation\<close> at time \<open>now\<close>.\<close>

definition isFlipping :: "string \<Rightarrow> int \<Rightarrow> renderer \<Rightarrow> bool" where
  "isFlipping key now st =
     (case clockElements (run_timeouts now st) key of
        None \<Rightarrow> False
      | Some element \<Rightarrow> ''flip-animation'' \<in> classList element)"

text \<open>A render at time \<open>now\<close>, after the timer callbacks that were due before it.\<close>

definition render_at :: "int \<Rightarrow> time_parts \<Rightarrow> renderer \<Rightarrow> renderer" where
  "render_at now timeParts st = render now timeParts (run_timeouts now st)"

text \<open>
  Whether the callback of \<open>render\<close> takes its inner branch for a key and index: the key
  has an element and the new digit differs from \<open>previousTime[index]\<close>.
\<close>

definition flips :: "time_parts \<Rightarrow> renderer \<Rightarrow> string \<times> nat \<Rightarrow> bool" where
  "flips timeParts st ki =
     (clockElements st (fst ki) \<noteq> None \<and>
      tp_get timeParts (fst ki) \<noteq> js_index (previousTime st) (snd ki))"

text \<open>
  States to evaluate on: the time parts whose six digits are the characters of a string,
  and the renderer after \<open>initClock\<close> has found all six digit elements and the AM/PM
  indicator, before the first render.
\<close>

definition parts_of :: "string \<Rightarrow> string \<Rightarrow> time_parts" where
  "parts_of s p =
     \<lparr> h1 = js_index s 0, h2 = js_index s 1, m1 = js_index s 2, m2 = js_index s 3,
       s1 = js_index s 4, s2 = js_index s 5, ampm = p \<rparr>"

definition blank :: element where
  "blank = \<lparr> textContent = ''0'', classList = {} \<rparr>"

definition initial_display :: renderer where
  "initial_display =
     \<lparr> clockElements = [''h1'' \<mapsto> blank, ''h2'' \<mapsto> blank, ''m1'' \<mapsto> blank,
                        ''m2'' \<mapsto> blank, ''s1'' \<mapsto> blank, ''s2'' \<mapsto> blank,
                        ''ampm'' \<mapsto> \<lparr> textContent = [], classList = {} \<rparr>],
       previousTime = ''000000'',
       timeouts = [] \<rparr>"

section \<open>timezone.js: setTimezone and getCurrentTimezone\<close>

record tz_module =
  timezones :: "(string \<times> string) list"
  currentTimezone :: string

definition tz_initial :: tz_module where
  "tz_initial = \<lparr> timezones = [], currentTimezone = ''UTC'' \<rparr>"

text \<open>
  \<open>setTimezone\<close>: the constructor call validates the identifier; when it throws, the
  assignment is not reached and the \<open>catch\<close> block only logs.
\<close>

definition setTimezone :: "runtime \<Rightarrow> string \<Rightarrow> tz_module \<Rightarrow> tz_module" where
  "setTimezone rt timezoneId st =
     (case timeZones rt timezoneId of
        Some tza \<Rightarrow> st\<lparr> currentTimezone := timezoneId \<rparr>
      | None \<Rightarrow> st)"

definition getCurrentTimezone :: "tz_module \<Rightarrow> string" where
  "getCurrentTimezone st = currentTimezone st"

section \<open>settings.js: loadSettings\<close>

text \<open>
  The value \<open>JSON.parse\<close> returns. A settings object is a map from property names to
  values. \<open>localStorage.getItem\<close> and \<open>JSON.parse\<close> belong to the platform and may throw.
\<close>

datatype json = JNull | JBool bool | JNumber real | JString string
  | JArray "json list" | JObject "(string \<times> json) list"

record storage =
  getItem :: "string \<Rightarrow> js_error + string option"
  JSON_parse :: "string \<Rightarrow> js_error + json"

definition DEFAULTS :: "runtime \<Rightarrow> (string \<rightharpoonup> json)" where
  "DEFAULTS rt =
     [''soundOn'' \<mapsto> JBool False,
      ''is12h'' \<mapsto> JBool False,
      ''theme'' \<mapsto> JString ''dark'',
      ''primary'' \<mapsto> JString ''#66a3ff'',
      ''timezone'' \<mapsto> JString (resolvedTimeZone rt)]"

text \<open>The own enumerable properties that \<open>{...v}\<close> copies, in order.\<close>

definition own_properties :: "json \<Rightarrow> (string \<times> json) list" where
  "own_properties v =
     (case v of
        JObject kvs \<Rightarrow> kvs
      | JArray xs \<Rightarrow> zip (map js_String [0..<length xs]) xs
      | JString s \<Rightarrow> zip (map js_String [0..<length s]) (map (\<lambda>c. JString [c]) s)
      | _ \<Rightarrow> [])"

text \<open>\<open>{...target, ...v}\<close>: each property of \<open>v\<close> is set on the copy of \<open>target\<close>.\<close>

definition spread :: "(string \<rightharpoonup> json) \<Rightarrow> json \<Rightarrow> (string \<rightharpoonup> json)" where
  "spread target v = foldl (\<lambda>obj kv. obj(fst kv \<mapsto> snd kv)) target (own_properties v)"

definition loadSettings :: "runtime \<Rightarrow> storage \<Rightarrow> (string \<rightharpoonup> json)" where
  "loadSettings rt ls =
     (case getItem ls ''flip-clock-settings'' of
        Inl error \<Rightarrow> DEFAULTS rt
      | Inr None \<Rightarrow> DEFAULTS rt
      | Inr (Some stored) \<Rightarrow>
          if stored = [] then DEFAULTS rt
          else (case JSON_parse ls stored of
                  Inl error \<Rightarrow> DEFAULTS rt
                | Inr parsed \<Rightarrow> spread (DEFAULTS rt) parsed))"

text \<open>
  A storage to evaluate on: it holds the text \<open>{"is12h":true}\<close> under the settings key,
  and \<open>JSON.parse\<close> reads that text and rejects every other.
\<close>

definition stored_text :: string where
  "stored_text = ''{'' @ [CHR 0x22] @ ''is12h'' @ [CHR 0x22] @ '':true}''"

definition example_storage :: storage where
  "example_storage =
     \<lparr> getItem = (\<lambda>k. if k = ''flip-clock-settings'' then Inr (Some stored_text) else Inr None),
       JSON_parse = (\<lambda>s. if s = stored_text then Inr (JObject [(''is12h'', JBool True)])
                         else Inl SyntaxError) \<rparr>"

text \<open>A storage whose access is denied: \<open>getItem\<close> throws.\<close>

definition denied_storage :: storage where
  "denied_storage =
     \<lparr> getItem = (\<lambda>k. Inl SecurityError), JSON_parse = (\<lambda>s. Inl SyntaxError) \<rparr>"

section \<open>main.js: updateClock and the interval timer\<close>

text \<open>
  The state the tick touches: the renderer module, the time zone module, the two
  settings it reads, the handle of the interval timer, the number of calls of
  \<open>playTick\<close>, and the errors reported to the window's \<open>error\<close> handler.
\<close>

record app =
  display :: renderer
  tz_state :: tz_module
  settings_is12h :: bool
  settings_soundOn :: bool
  clockInterval :: "nat option"
  tickSounds :: nat
  reported :: "js_error list"

text \<open>
  \<open>updateClock\<close> at time \<open>now\<close>, with the formatter as a parameter (\<open>getTimeParts\<close> applied
  to the runtime and \<open>new Date()\<close>): there is no \<open>try\<close> in \<open>updateClock\<close>, so an error
  thrown by the formatter leaves it before \<open>render\<close> is called.
\<close>

definition updateClock ::
  "(string \<Rightarrow> bool \<Rightarrow> js_error + time_parts) \<Rightarrow> int \<Rightarrow> app \<Rightarrow> js_error + app" where
  "updateClock format now a =
     (case format (getCurrentTimezone (tz_state a)) (settings_is12h a) of
        Inl error \<Rightarrow> Inl error
      | Inr timeParts \<Rightarrow>
          Inr (a\<lparr> display := render_at now timeParts (display a),
                  tickSounds := (if settings_soundOn a then tickSounds a + 1 else tickSounds a) \<rparr>))"

text \<open>\<open>startClock\<close>: the initial render, then \<open>setInterval(updateClock, 1000)\<close>.\<close>

definition startClock ::
  "(string \<Rightarrow> bool \<Rightarrow> js_error + time_parts) \<Rightarrow> int \<Rightarrow> app \<Rightarrow> js_error + app" where
  "startClock format now a =
     (case updateClock format now a of
        Inl error \<Rightarrow> Inl error
      | Inr a' \<Rightarrow> Inr (a'\<lparr> clockInterval := Some 1000 \<rparr>))"

text \<open>
  One firing of the interval timer: the event loop calls \<open>updateClock\<close>; an error that
  escapes the callback is reported to the \<open>error\<close> handler, and the interval stays set.
  Without an interval nothing fires.
\<close>

definition interval_tick ::
  "(string \<Rightarrow> bool \<Rightarrow> js_error + time_parts) \<Rightarrow> int \<Rightarrow> app \<Rightarrow> app" where
  "interval_tick format now a =
     (case clockInterval a of
        None \<Rightarrow> a
      | Some delay \<Rightarrow>
          (case updateClock format now a of
             Inl error \<Rightarrow> a\<lparr> reported := reported a @ [error] \<rparr>
           | Inr a' \<Rightarrow> a'))"

text \<open>
  An application state to evaluate on, with the interval timer running, and a formatter
  that throws.
\<close>

definition example_app :: app where
  "example_app =
     \<lparr> display = initial_display, tz_state = tz_initial, settings_is12h = False,
       settings_soundOn = False, clockInterval = Some 1000, tickSounds = 0, reported = [] \<rparr>"

definition throwing_format :: "string \<Rightarrow> bool \<Rightarrow> js_error + time_parts" where
  "throwing_format timezone is12h = Inl TypeError"

section \<open>Decimal strings of the clock fields\<close>

lemma js_String_small: "n < 10 \<Longrightarrow> js_String n = [digit_char n]"
  by (subst js_String.simps) simp

lemma js_String_two: "10 \<le> n \<Longrightarrow> n < 100 \<Longrightarrow> js_String n = [digit_char (n div 10), digit_char (n mod 10)]"
  by (subst js_String.simps) (simp add: js_String_small)

lemma pad2: "n < 100 \<Longrightarrow>
  padStart (js_String n) 2 CHR ''0'' = [digit_char (n div 10), digit_char (n mod 10)]"
proof (cases "n < 10")
  case True
  then have "digit_char (n div 10) = CHR ''0''" by (simp add: digit_char_def)
  with True show ?thesis by (simp add: js_String_small padStart_def)
next
  case False
  assume "n < 100"
  with False show ?thesis by (simp add: js_String_two padStart_def)
qed

lemma is_digit_digit_char: "is_digit (digit_char d)"
proof -
  have "d mod 10 < length ''0123456789''" by simp
  then have "''0123456789'' ! (d mod 10) \<in> set ''0123456789''" by (rule nth_mem)
  then show ?thesis unfolding is_digit_def digit_char_def .
qed

lemma HourFromTime_lt: "HourFromTime t < 24"
  by (simp add: HourFromTime_def nat_less_iff)

lemma MinFromTime_lt: "MinFromTime t < 60"
  by (simp add: MinFromTime_def nat_less_iff)

lemma SecFromTime_lt: "SecFromTime t < 60"
  by (simp add: SecFromTime_def nat_less_iff)

lemma intl_hour_lt: "H < 24 \<Longrightarrow> intl_hour hc b H < 100"
proof -
  assume "H < 24"
  moreover have "H mod 12 < 12" by simp
  ultimately show ?thesis unfolding intl_hour_def by auto
qed

text \<open>The parts of a successful \<open>formatToParts\<close>, read back by the \<open>try\<close> block.\<close>

lemma extract_digits_pattern:
  "extract_digits ([(''hour'', [a, b]), (''literal'', '':''), (''minute'', [c, d]),
                    (''literal'', '':''), (''second'', [e, f])]
                   @ (if hour12 then [(''literal'', '' ''), (''dayPeriod'', p)] else []))
   = \<lparr> h1 = Some [a], h2 = Some [b], m1 = Some [c], m2 = Some [d], s1 = Some [e], s2 = Some [f],
       ampm = (if hour12 then js_or (Some p) [] else []) \<rparr>"
  by (simp add: extract_digits_def store_part_def js_or_def js_index_def)

lemma getTimeParts_intl:
  assumes "timeZones rt tz = Some tza"
  shows "getTimeParts rt (Date t) tz is12h =
    Inr \<lparr> h1 = Some [digit_char (intl_hour (hourCycle24 rt) is12h (HourFromTime (t + tza t)) div 10)],
          h2 = Some [digit_char (intl_hour (hourCycle24 rt) is12h (HourFromTime (t + tza t)) mod 10)],
          m1 = Some [digit_char (MinFromTime (t + tza t) div 10)],
          m2 = Some [digit_char (MinFromTime (t + tza t) mod 10)],
          s1 = Some [digit_char (SecFromTime (t + tza t) div 10)],
          s2 = Some [digit_char (SecFromTime (t + tza t) mod 10)],
          ampm = (if is12h then (if HourFromTime (t + tza t) < 12 then ''AM'' else ''PM'') else []) \<rparr>"
proof -
  have H: "intl_hour (hourCycle24 rt) is12h (HourFromTime (t + tza t)) < 100"
    by (rule intl_hour_lt [OF HourFromTime_lt])
  have M: "MinFromTime (t + tza t) < 100"
    using MinFromTime_lt [of "t + tza t"] by simp
  have S: "SecFromTime (t + tza t) < 100"
    using SecFromTime_lt [of "t + tza t"] by simp
  show ?thesis
    unfolding getTimeParts_def formatToParts_def
    by (simp add: assms Let_def pad2 [OF H] pad2 [OF M] pad2 [OF S] extract_digits_pattern js_or_def
             del: append.simps)
qed

lemma fallback_eq:
  "fallback rt is12h =
    (let now = systemClock rt + localTZA rt (systemClock rt);
         hours = (if is12h then (if HourFromTime now mod 12 = 0 then 12 else HourFromTime now mod 12)
                  else HourFromTime now)
     in \<lparr> h1 = Some [digit_char (hours div 10)], h2 = Some [digit_char (hours mod 10)],
          m1 = Some [digit_char (MinFromTime now div 10)],
          m2 = Some [digit_char (MinFromTime now mod 10)],
          s1 = Some [digit_char (SecFromTime now div 10)],
          s2 = Some [digit_char (SecFromTime now mod 10)],
          ampm = (if is12h then (if HourFromTime now \<ge> 12 then ''PM'' else ''AM'') else []) \<rparr>)"
proof -
  define now where "now = systemClock rt + localTZA rt (systemClock rt)"
  define hours where
    "hours = (if is12h then (if HourFromTime now mod 12 = 0 then 12 else HourFromTime now mod 12)
              else HourFromTime now)"
  have "HourFromTime now mod 12 < 12" by simp
  with HourFromTime_lt [of now] have H: "hours < 100" unfolding hours_def by auto
  have M: "MinFromTime now < 100" using MinFromTime_lt [of now] by simp
  have S: "SecFromTime now < 100" using SecFromTime_lt [of now] by simp
  show ?thesis
    unfolding fallback_def Let_def now_def [symmetric] hours_def [symmetric]
    by (simp add: pad2 [OF H] pad2 [OF M] pad2 [OF S] js_index_def)
qed

lemma digit_char_simps:
  "digit_char 0 = CHR ''0''" "digit_char 1 = CHR ''1''" "digit_char 2 = CHR ''2''"
  "digit_char 3 = CHR ''3''" "digit_char 4 = CHR ''4''" "digit_char 5 = CHR ''5''"
  "digit_char 6 = CHR ''6''" "digit_char 7 = CHR ''7''" "digit_char 8 = CHR ''8''"
  "digit_char 9 = CHR ''9''" "digit_char (Suc 0) = CHR ''1''"
  by (simp_all add: digit_char_def)

lemma digit_field_digit_char: "digit_field (Some [digit_char d])"
  by (simp add: digit_field_def is_digit_digit_char)

lemma six_digits_fallback: "six_digits (fallback rt is12h)"
  by (simp add: fallback_eq Let_def six_digits_def digit_field_digit_char)

lemma getTimeParts_fallback:
  "timeZones rt timezone = None \<or> date = Invalid_Date \<Longrightarrow>
   getTimeParts rt date timezone is12h = Inr (fallback rt is12h)"
  by (auto simp: getTimeParts_def formatToParts_def split: option.splits js_date.splits)

section \<open>Claims about getTimeParts\<close>

text \<open>
  C1: for a timestamp whose hour of day in the configured time zone is 13, with
  12-hour mode on, \<open>getTimeParts\<close> returns the hour padded to two characters,
  \<open>h1 = '0'\<close> and \<open>h2 = '1'\<close>, with the period label \<open>PM\<close>.
\<close>

theorem C1_hour13_12h:
  assumes "timeZones rt timezone = Some tza"
    and "HourFromTime (t + tza t) = 13"
  shows "\<exists>r. getTimeParts rt (Date t) timezone True = Inr r \<and>
              h1 r = Some ''0'' \<and> h2 r = Some ''1'' \<and> ampm r = ''PM''"
  by (simp add: getTimeParts_intl [OF assms(1)] assms(2) intl_hour_def digit_char_simps)

theorem C1_hour13_12h_witness:
  "timeZones example_runtime ''UTC'' = Some (\<lambda>t. 0) \<and>
   HourFromTime (47109000 + (\<lambda>t. 0) (47109000::int)) = 13 \<and>
   (\<exists>r. getTimeParts example_runtime (Date 47109000) ''UTC'' True = Inr r \<and>
        h1 r = Some ''0'' \<and> h2 r = Some ''1'' \<and> ampm r = ''PM'')"
proof -
  have z: "timeZones example_runtime ''UTC'' = Some (\<lambda>t. 0)"
    by (simp add: example_runtime_def)
  have h: "HourFromTime (47109000 + (\<lambda>t. 0) (47109000::int)) = 13"
    by (simp add: HourFromTime_def)
  from C1_hour13_12h [OF z h] z h show ?thesis by blast
qed

text \<open>
  C4: \<open>getTimeParts\<close> returns six digit fields \<open>h1, h2, m1, m2, s1, s2\<close>, each a single
  character in \<open>'0'..'9'\<close>, and the period label \<open>ampm\<close> is the empty string exactly
  when 12-hour mode is off. This holds for every date, time zone identifier and mode,
  on the formatter's path and on the fallback's.
\<close>

theorem C4_six_digits_and_period:
  "\<exists>r. getTimeParts rt date timezone is12h = Inr r \<and> six_digits r \<and>
       ((ampm r = []) = (\<not> is12h))"
proof (cases "timeZones rt timezone = None \<or> date = Invalid_Date")
  case True
  then have "getTimeParts rt date timezone is12h = Inr (fallback rt is12h)"
    by (rule getTimeParts_fallback)
  moreover have "(ampm (fallback rt is12h) = []) = (\<not> is12h)"
    by (simp add: fallback_eq Let_def)
  ultimately show ?thesis using six_digits_fallback by blast
next
  case False
  then obtain tza t where z: "timeZones rt timezone = Some tza" and d: "date = Date t"
    by (cases date) auto
  show ?thesis
    unfolding d getTimeParts_intl [OF z]
    by (simp add: six_digits_def digit_field_digit_char)
qed

theorem C4_six_digits_and_period_witness:
  "\<exists>r. getTimeParts example_runtime (Date 47109000) ''Asia/Tokyo'' False = Inr r \<and>
       six_digits r \<and> ((ampm r = []) = (\<not> False))"
  using C4_six_digits_and_period [of example_runtime "Date 47109000" "''Asia/Tokyo''" False]
  by simp

text \<open>
  C5: in 12-hour mode, an instant whose 24-hour hour value is 0 is shown with the hour
  digits \<open>1\<close>, \<open>2\<close> and the period \<open>AM\<close>, and one whose hour value is 12 with the hour
  digits \<open>1\<close>, \<open>2\<close> and the period \<open>PM\<close>; on the formatter's path and on the fallback's.
\<close>

theorem C5_twelve_hour_boundary:
  assumes "hour_of_day rt date timezone = H" and "H = 0 \<or> H = 12"
  shows "\<exists>r. getTimeParts rt date timezone True = Inr r \<and>
              h1 r = Some ''1'' \<and> h2 r = Some ''2'' \<and>
              ampm r = (if H = 0 then ''AM'' else ''PM'')"
proof (cases "timeZones rt timezone = None \<or> date = Invalid_Date")
  case True
  then have g: "getTimeParts rt date timezone True = Inr (fallback rt True)"
    by (rule getTimeParts_fallback)
  from True assms(1)
  have "HourFromTime (systemClock rt + localTZA rt (systemClock rt)) = H"
    by (auto simp: hour_of_day_def split: option.splits js_date.splits)
  with assms(2) show ?thesis
    unfolding g by (auto simp: fallback_eq Let_def digit_char_simps)
next
  case False
  then obtain tza t where z: "timeZones rt timezone = Some tza" and d: "date = Date t"
    by (cases date) auto
  from assms(1) have "HourFromTime (t + tza t) = H"
    by (simp add: hour_of_day_def z d)
  with assms(2) show ?thesis
    unfolding d getTimeParts_intl [OF z]
    by (auto simp: intl_hour_def digit_char_simps)
qed

theorem C5_twelve_hour_boundary_witness:
  "hour_of_day example_runtime (Date 10800000) ''Asia/Tokyo'' = 12 \<and> ((12::nat) = 0 \<or> (12::nat) = 12) \<and>
   (\<exists>r. getTimeParts example_runtime (Date 10800000) ''Asia/Tokyo'' True = Inr r \<and>
        h1 r = Some ''1'' \<and> h2 r = Some ''2'' \<and>
        ampm r = (if (12::nat) = 0 then ''AM'' else ''PM''))"
proof -
  have h: "hour_of_day example_runtime (Date 10800000) ''Asia/Tokyo'' = 12"
    by (simp add: hour_of_day_def example_runtime_def HourFromTime_def)
  have c: "(12::nat) = 0 \<or> (12::nat) = 12" by simp
  from C5_twelve_hour_boundary [OF h c] h show ?thesis by simp
qed

text \<open>
  C7: \<open>getTimeParts\<close> never raises to its caller: it returns a result for every date,
  time zone identifier and mode. When the identifier is not a valid time zone or the
  date is invalid (the formatter throws), the result is the fallback, computed from the
  system clock in the local zone: two digits each for the hour (mapped to 1..12 in
  12-hour mode), the minute and the second, and the period per the 12-hour mapping.
\<close>

theorem C7_never_raises:
  "\<exists>r. getTimeParts rt date timezone is12h = Inr r \<and>
       (timeZones rt timezone = None \<or> date = Invalid_Date \<longrightarrow>
          (let now = systemClock rt + localTZA rt (systemClock rt);
               hours = (if is12h then (if HourFromTime now mod 12 = 0 then 12
                                       else HourFromTime now mod 12)
                        else HourFromTime now)
           in six_digits r \<and>
              h1 r = Some [digit_char (hours div 10)] \<and> h2 r = Some [digit_char (hours mod 10)] \<and>
              m1 r = Some [digit_char (MinFromTime now div 10)] \<and>
              m2 r = Some [digit_char (MinFromTime now mod 10)] \<and>
              s1 r = Some [digit_char (SecFromTime now div 10)] \<and>
              s2 r = Some [digit_char (SecFromTime now mod 10)] \<and>
              ampm r = (if is12h then (if HourFromTime now \<ge> 12 then ''PM'' else ''AM'')
                        else [])))"
proof (cases "timeZones rt timezone = None \<or> date = Invalid_Date")
  case True
  have "getTimeParts rt date timezone is12h = Inr (fallback rt is12h)"
    using True by (rule getTimeParts_fallback)
  moreover have "six_digits (fallback rt is12h)" by (rule six_digits_fallback)
  ultimately show ?thesis
    by (simp add: Let_def) (simp add: fallback_eq Let_def)
next
  case False
  obtain r where "getTimeParts rt date timezone is12h = Inr r"
    by (cases "formatToParts rt date timezone is12h") (simp_all add: getTimeParts_def)
  with False show ?thesis by blast
qed

theorem C7_never_raises_witness:
  "(timeZones example_runtime ''Mars/Phobos'' = None \<or> Date 0 = Invalid_Date) \<and>
   getTimeParts example_runtime (Date 0) ''Mars/Phobos'' True =
     Inr \<lparr> h1 = Some ''0'', h2 = Some ''2'', m1 = Some ''0'', m2 = Some ''5'',
           s1 = Some ''0'', s2 = Some ''9'', ampm = ''PM'' \<rparr>"
proof -
  have z: "timeZones example_runtime ''Mars/Phobos'' = None"
    by (simp add: example_runtime_def)
  have c: "systemClock example_runtime + localTZA example_runtime (systemClock example_runtime)
           = 50709000"
    by (simp add: example_runtime_def)
  obtain r where r: "getTimeParts example_runtime (Date 0) ''Mars/Phobos'' True = Inr r"
    and f: "timeZones example_runtime ''Mars/Phobos'' = None \<or> Date 0 = Invalid_Date \<longrightarrow>
          (let now = systemClock example_runtime + localTZA example_runtime (systemClock example_runtime);
               hours = (if True then (if HourFromTime now mod 12 = 0 then 12
                                       else HourFromTime now mod 12)
                        else HourFromTime now)
           in six_digits r \<and>
              h1 r = Some [digit_char (hours div 10)] \<and> h2 r = Some [digit_char (hours mod 10)] \<and>
              m1 r = Some [digit_char (MinFromTime now div 10)] \<and>
              m2 r = Some [digit_char (MinFromTime now mod 10)] \<and>
              s1 r = Some [digit_char (SecFromTime now div 10)] \<and>
              s2 r = Some [digit_char (SecFromTime now mod 10)] \<and>
              ampm r = (if True then (if HourFromTime now \<ge> 12 then ''PM'' else ''AM'')
                        else []))"
    using C7_never_raises [of example_runtime "Date 0" "''Mars/Phobos''" True] by blast
  from f z have "h1 r = Some ''0'' \<and> h2 r = Some ''2'' \<and> m1 r = Some ''0'' \<and> m2 r = Some ''5'' \<and>
      s1 r = Some ''0'' \<and> s2 r = Some ''9'' \<and> ampm r = ''PM''"
    unfolding c by (simp add: HourFromTime_def MinFromTime_def SecFromTime_def digit_char_simps)
  then have "r = \<lparr> h1 = Some ''0'', h2 = Some ''2'', m1 = Some ''0'', m2 = Some ''5'',
           s1 = Some ''0'', s2 = Some ''9'', ampm = ''PM'' \<rparr>"
    by (cases r) simp
  with r z show ?thesis by simp
qed

section \<open>Claims about the time zone module and the settings\<close>

lemma foldl_update:
  "foldl (\<lambda>obj kv. obj(fst kv \<mapsto> snd kv)) m kvs = m ++ map_of (rev kvs)"
proof (induction kvs arbitrary: m)
  case Nil
  show ?case by simp
next
  case (Cons kv kvs)
  have "foldl (\<lambda>obj kv. obj(fst kv \<mapsto> snd kv)) m (kv # kvs)
        = foldl (\<lambda>obj kv. obj(fst kv \<mapsto> snd kv)) (m(fst kv \<mapsto> snd kv)) kvs"
    by simp
  also have "\<dots> = m(fst kv \<mapsto> snd kv) ++ map_of (rev kvs)"
    by (rule Cons.IH)
  also have "\<dots> = m ++ map_of (rev (kv # kvs))"
    by (cases kv) (auto simp: map_of_append fun_eq_iff map_add_def split: option.splits)
  finally show ?case .
qed

lemma dom_DEFAULTS:
  "dom (DEFAULTS rt) = {''soundOn'', ''is12h'', ''theme'', ''primary'', ''timezone''}"
  unfolding DEFAULTS_def by (simp add: insert_commute)

lemma spread_eq: "spread target v = target ++ map_of (rev (own_properties v))"
  by (simp add: spread_def foldl_update)


lemma setTimezone_foldl:
  "getCurrentTimezone (foldl (\<lambda>s i. setTimezone rt i s) st ids) =
   last (currentTimezone st # filter (\<lambda>i. timeZones rt i \<noteq> None) ids)"
  by (induction ids arbitrary: st)
     (auto simp: setTimezone_def getCurrentTimezone_def split: option.splits)

text \<open>
  C10: \<open>setTimezone\<close> leaves the module state unchanged for every identifier that fails
  validation, so after any sequence of calls \<open>getCurrentTimezone\<close> returns the last
  identifier that passed validation, and \<open>'UTC'\<close> when none did.
\<close>

theorem C10_setTimezone_atomic:
  "(timeZones rt timezoneId = None \<longrightarrow>
      setTimezone rt timezoneId st = st \<and>
      getCurrentTimezone (setTimezone rt timezoneId st) = getCurrentTimezone st) \<and>
   getCurrentTimezone (foldl (\<lambda>s i. setTimezone rt i s) tz_initial ids) =
     last (''UTC'' # filter (\<lambda>i. timeZones rt i \<noteq> None) ids)"
  by (simp add: setTimezone_foldl) (simp add: setTimezone_def tz_initial_def)

theorem C10_setTimezone_atomic_witness:
  "timeZones example_runtime ''Mars/Phobos'' = None \<and>
   getCurrentTimezone (setTimezone example_runtime ''Mars/Phobos''
      (setTimezone example_runtime ''Asia/Tokyo'' tz_initial)) = ''Asia/Tokyo'' \<and>
   getCurrentTimezone (foldl (\<lambda>s i. setTimezone example_runtime i s) tz_initial
      [''Mars/Phobos'', ''Asia/Tokyo'', ''Not/AZone'']) = ''Asia/Tokyo''"
proof -
  have z: "timeZones example_runtime ''Mars/Phobos'' = None"
    by (simp add: example_runtime_def)
  have "getCurrentTimezone (setTimezone example_runtime ''Asia/Tokyo'' tz_initial) = ''Asia/Tokyo''"
    by (simp add: setTimezone_def getCurrentTimezone_def example_runtime_def)
  with z C10_setTimezone_atomic [of example_runtime "''Mars/Phobos''"
      "setTimezone example_runtime ''Asia/Tokyo'' tz_initial"
      "[''Mars/Phobos'', ''Asia/Tokyo'', ''Not/AZone'']"]
  show ?thesis by (simp add: example_runtime_def)
qed


lemma loadSettings_cases:
  "loadSettings rt ls = DEFAULTS rt \<or>
   (\<exists>parsed. loadSettings rt ls = DEFAULTS rt ++ map_of (rev (own_properties parsed)))"
  unfolding loadSettings_def spread_eq
  by (simp split: sum.split option.split) blast


lemma dom_loadSettings: "dom (DEFAULTS rt) \<subseteq> dom (loadSettings rt ls)"
proof -
  from loadSettings_cases [of rt ls] show ?thesis
  proof
    assume "loadSettings rt ls = DEFAULTS rt"
    then show ?thesis by simp
  next
    assume "\<exists>parsed. loadSettings rt ls = DEFAULTS rt ++ map_of (rev (own_properties parsed))"
    then obtain parsed
      where "loadSettings rt ls = DEFAULTS rt ++ map_of (rev (own_properties parsed))" ..
    then show ?thesis by simp
  qed
qed

text \<open>
  C9: \<open>loadSettings\<close> returns the stored object merged over the defaults: a stored
  property wins, every other key keeps its default. So the five preference keys are
  always present; \<open>timezone\<close> is the runtime's resolved local time zone when the stored
  value has no such property; and when \<open>getItem\<close> or \<open>JSON.parse\<close> throws, or nothing is
  stored, the result is the defaults.
\<close>

theorem C9_loadSettings_merge:
  "{''soundOn'', ''is12h'', ''theme'', ''primary'', ''timezone''} \<subseteq> dom (loadSettings rt ls) \<and>
   (\<forall>stored parsed.
      getItem ls ''flip-clock-settings'' = Inr (Some stored) \<and> stored \<noteq> [] \<and>
      JSON_parse ls stored = Inr parsed \<longrightarrow>
        loadSettings rt ls = DEFAULTS rt ++ map_of (rev (own_properties parsed)) \<and>
        (''timezone'' \<notin> fst ` set (own_properties parsed) \<longrightarrow>
           loadSettings rt ls ''timezone'' = Some (JString (resolvedTimeZone rt)))) \<and>
   (\<forall>stored.
      (\<exists>e. getItem ls ''flip-clock-settings'' = Inl e) \<or>
      getItem ls ''flip-clock-settings'' = Inr None \<or>
      getItem ls ''flip-clock-settings'' = Inr (Some stored) \<and>
        (stored = [] \<or> (\<exists>e. JSON_parse ls stored = Inl e)) \<longrightarrow>
        loadSettings rt ls = DEFAULTS rt) \<and>
   DEFAULTS rt ''timezone'' = Some (JString (resolvedTimeZone rt))"
proof (intro conjI allI impI)
  show "{''soundOn'', ''is12h'', ''theme'', ''primary'', ''timezone''} \<subseteq> dom (loadSettings rt ls)"
    unfolding dom_DEFAULTS [of rt, symmetric] by (rule dom_loadSettings)
next
  fix stored parsed
  assume a: "getItem ls ''flip-clock-settings'' = Inr (Some stored) \<and> stored \<noteq> [] \<and>
      JSON_parse ls stored = Inr parsed"
  then show m: "loadSettings rt ls = DEFAULTS rt ++ map_of (rev (own_properties parsed))"
    by (simp add: loadSettings_def spread_eq)
  assume "''timezone'' \<notin> fst ` set (own_properties parsed)"
  then have "map_of (rev (own_properties parsed)) ''timezone'' = None"
    by (simp add: map_of_eq_None_iff)
  moreover have "DEFAULTS rt ''timezone'' = Some (JString (resolvedTimeZone rt))"
    by (simp add: DEFAULTS_def)
  ultimately show "loadSettings rt ls ''timezone'' = Some (JString (resolvedTimeZone rt))"
    unfolding m by (simp add: map_add_def)
next
  fix stored
  assume "(\<exists>e. getItem ls ''flip-clock-settings'' = Inl e) \<or>
      getItem ls ''flip-clock-settings'' = Inr None \<or>
      getItem ls ''flip-clock-settings'' = Inr (Some stored) \<and>
        (stored = [] \<or> (\<exists>e. JSON_parse ls stored = Inl e))"
  then show "loadSettings rt ls = DEFAULTS rt"
    unfolding loadSettings_def by (elim disjE conjE exE) simp_all
next
  show "DEFAULTS rt ''timezone'' = Some (JString (resolvedTimeZone rt))"
    by (simp add: DEFAULTS_def)
qed

theorem C9_loadSettings_merge_witness:
  "getItem example_storage ''flip-clock-settings'' = Inr (Some stored_text) \<and> stored_text \<noteq> [] \<and>
   JSON_parse example_storage stored_text = Inr (JObject [(''is12h'', JBool True)]) \<and>
   ''timezone'' \<notin> fst ` set (own_properties (JObject [(''is12h'', JBool True)])) \<and>
   loadSettings example_runtime example_storage ''is12h'' = Some (JBool True) \<and>
   loadSettings example_runtime example_storage ''theme'' = Some (JString ''dark'') \<and>
   loadSettings example_runtime example_storage ''timezone'' = Some (JString ''Europe/Paris'') \<and>
   (\<exists>e. getItem denied_storage ''flip-clock-settings'' = Inl e) \<and>
   loadSettings example_runtime denied_storage = DEFAULTS example_runtime"
proof -
  have g: "getItem example_storage ''flip-clock-settings'' = Inr (Some stored_text)"
    by (simp add: example_storage_def)
  have n: "stored_text \<noteq> []" by (simp add: stored_text_def)
  have p: "JSON_parse example_storage stored_text = Inr (JObject [(''is12h'', JBool True)])"
    by (simp add: example_storage_def)
  have t: "''timezone'' \<notin> fst ` set (own_properties (JObject [(''is12h'', JBool True)]))"
    by (simp add: own_properties_def)
  have d: "\<exists>e. getItem denied_storage ''flip-clock-settings'' = Inl e"
    by (simp add: denied_storage_def)
  note ok = C9_loadSettings_merge [of example_runtime example_storage]
  note bad = C9_loadSettings_merge [of example_runtime denied_storage]
  from ok g n p t
  have m: "loadSettings example_runtime example_storage =
           DEFAULTS example_runtime ++ map_of (rev (own_properties (JObject [(''is12h'', JBool True)])))"
    and z: "loadSettings example_runtime example_storage ''timezone'' =
           Some (JString (resolvedTimeZone example_runtime))"
    by blast+
  have i: "loadSettings example_runtime example_storage ''is12h'' = Some (JBool True)"
    unfolding m by (simp add: own_properties_def)
  have th: "loadSettings example_runtime example_storage ''theme'' = Some (JString ''dark'')"
    unfolding m by (simp add: own_properties_def DEFAULTS_def map_add_def)
  from bad d have b: "loadSettings example_runtime denied_storage = DEFAULTS example_runtime"
    by blast
  from z have z': "loadSettings example_runtime example_storage ''timezone'' =
           Some (JString ''Europe/Paris'')"
    by (simp add: example_runtime_def)
  from g n p t i th z' d b show ?thesis by blast
qed

section \<open>Claims about the renderer\<close>

lemma render_digit_previousTime [simp]:
  "previousTime (render_digit now tp st ki) = previousTime st"
  by (simp add: render_digit_def Let_def split: option.split)

lemma render_digit_elements [simp]:
  "(clockElements (render_digit now tp st ki) key = None) = (clockElements st key = None)"
  by (simp add: render_digit_def Let_def split: option.split)

lemma render_digit_flips [simp]:
  "flips tp (render_digit now tp' st ki) ki' = flips tp st ki'"
  by (simp add: flips_def)

lemma render_digit_timeouts:
  "timeouts (render_digit now tp st ki) =
   timeouts st @ (if flips tp st ki then [(now + 600, fst ki)] else [])"
  by (auto simp: render_digit_def flips_def Let_def split: option.split)

lemma foldl_render_digit_flips [simp]:
  "flips tp (foldl (render_digit now tp') st kis) ki' = flips tp st ki'"
  by (induction kis arbitrary: st) simp_all

lemma foldl_render_digit_timeouts:
  "timeouts (foldl (render_digit now tp) st kis) =
   timeouts st @ map (\<lambda>ki. (now + 600, fst ki)) (filter (flips tp st) kis)"
proof (induction kis arbitrary: st)
  case Nil
  show ?case by simp
next
  case (Cons ki kis)
  have "filter (flips tp (render_digit now tp st ki)) kis = filter (flips tp st) kis"
    by (rule filter_cong) simp_all
  then show ?case
    by (simp add: Cons.IH render_digit_timeouts)
qed

lemma render_ampm_timeouts [simp]: "timeouts (render_ampm tp st) = timeouts st"
  by (simp add: render_ampm_def split: option.split)

lemma render_timeouts:
  "timeouts (render now tp st) =
   timeouts st @ map (\<lambda>ki. (now + 600, fst ki)) (filter (flips tp st) (zip keys [0..<length keys]))"
  by (simp add: render_def foldl_render_digit_timeouts)

lemma distinct_keys: "distinct keys"
  by (simp add: keys_def)

lemma length_keys: "length keys = 6"
  by (simp add: keys_def)

lemma scheduled_iff:
  assumes "i < length keys"
  shows "((d, keys ! i) \<in> set (map (\<lambda>ki. (d, fst ki)) (filter P (zip keys [0..<length keys]))))
         = P (keys ! i, i)"
proof
  assume "(d, keys ! i) \<in> set (map (\<lambda>ki. (d, fst ki)) (filter P (zip keys [0..<length keys])))"
  then obtain ki where ki: "ki \<in> set (zip keys [0..<length keys])" "P ki" "fst ki = keys ! i"
    by auto
  from ki(1) obtain j where j: "j < length keys" "ki = (keys ! j, j)"
    by (auto simp: set_zip)
  with ki(3) assms have "j = i"
    by (simp add: nth_eq_iff_index_eq [OF distinct_keys])
  with j ki(2) show "P (keys ! i, i)" by simp
next
  assume p: "P (keys ! i, i)"
  from assms have "(keys ! i, i) \<in> set (zip keys [0..<length keys])"
    by (auto simp: set_zip)
  with p show "(d, keys ! i) \<in> set (map (\<lambda>ki. (d, fst ki)) (filter P (zip keys [0..<length keys])))"
    by force
qed

lemma scheduled_by_render:
  "drop (length (timeouts st)) (timeouts (render now tp st)) =
   map (\<lambda>ki. (now + 600, fst ki)) (filter (flips tp st) (zip keys [0..<length keys]))"
  by (simp add: render_timeouts)

lemma changed_positions_flips:
  "changed_positions now tp st = filter (\<lambda>i. flips tp st (keys ! i, i)) [0..<length keys]"
  unfolding changed_positions_def scheduled_by_render
proof (rule filter_cong [OF refl])
  fix i
  assume "i \<in> set [0..<length keys]"
  then have i: "i < length keys" by simp
  show "((now + 600, keys ! i) \<in> set (map (\<lambda>ki. (now + 600, fst ki))
              (filter (flips tp st) (zip keys [0..<length keys]))))
        = flips tp st (keys ! i, i)"
    by (rule scheduled_iff [OF i])
qed


lemma concat_singletons:
  assumes "\<forall>k \<in> set ks. \<exists>c. g k = [c]"
  shows "concat (map g ks) = map (\<lambda>k. hd (g k)) ks"
  using assms by (induction ks) auto

lemma currentTime_nth:
  assumes digits: "\<forall>key \<in> set keys. \<exists>c. tp_get tp key = Some [c]"
  shows "length (currentTime tp) = 6"
    and "i < 6 \<Longrightarrow> tp_get tp (keys ! i) = Some [currentTime tp ! i]"
proof -
  from digits have g: "\<forall>key \<in> set keys. \<exists>c. js_text (tp_get tp key) = [c]"
    by (auto simp: js_text_def)
  have c: "currentTime tp = map (\<lambda>key. hd (js_text (tp_get tp key))) keys"
    unfolding currentTime_def by (rule concat_singletons [OF g])
  show "length (currentTime tp) = 6" by (simp add: c length_keys)
  assume i: "i < 6"
  then have "keys ! i \<in> set keys" by (simp add: length_keys)
  with digits obtain ch where ch: "tp_get tp (keys ! i) = Some [ch]" by blast
  with i show "tp_get tp (keys ! i) = Some [currentTime tp ! i]"
    by (simp add: c length_keys js_text_def)
qed

lemma changed_positions_compare:
  assumes elements: "\<forall>key \<in> set keys. clockElements st key \<noteq> None"
    and previous: "length (previousTime st) = 6"
    and digits: "\<forall>key \<in> set keys. \<exists>c. tp_get tp key = Some [c]"
  shows "changed_positions now tp st =
           filter (\<lambda>i. previousTime st ! i \<noteq> currentTime tp ! i) [0..<6]"
proof -
  have f: "flips tp st (keys ! i, i) = (previousTime st ! i \<noteq> currentTime tp ! i)"
    if i: "i < 6" for i
  proof -
    from i have "keys ! i \<in> set keys" by (simp add: length_keys)
    with elements have "clockElements st (keys ! i) \<noteq> None" by blast
    moreover from i previous have "js_index (previousTime st) i = Some [previousTime st ! i]"
      by (simp add: js_index_def)
    ultimately show ?thesis
      using currentTime_nth(2) [OF digits i] by (auto simp: flips_def)
  qed
  show ?thesis
    unfolding changed_positions_flips length_keys
    by (rule filter_cong [OF refl]) (simp add: f)
qed

text \<open>
  After \<open>resetState\<close> the comparison is against \<open>'000000'\<close>: the next render flips the
  positions whose new digit is not \<open>0\<close>, and only those.
\<close>

lemma changed_positions_after_reset:
  assumes elements: "\<forall>key \<in> set keys. clockElements st key \<noteq> None"
    and digits: "\<forall>key \<in> set keys. \<exists>c. tp_get tp key = Some [c]"
  shows "changed_positions now tp (resetState st) =
           filter (\<lambda>i. currentTime tp ! i \<noteq> CHR ''0'') [0..<6]"
proof -
  have e: "\<forall>key \<in> set keys. clockElements (resetState st) key \<noteq> None"
    using elements by (simp add: resetState_def)
  have p: "length (previousTime (resetState st)) = 6"
    by (simp add: resetState_def)
  have z: "previousTime (resetState st) ! i = CHR ''0''" if "i < 6" for i
  proof -
    from that have "i = 0 \<or> i = 1 \<or> i = 2 \<or> i = 3 \<or> i = 4 \<or> i = 5" by arith
    then show ?thesis by (auto simp: resetState_def)
  qed
  show ?thesis
    unfolding changed_positions_compare [OF e p digits]
    by (rule filter_cong [OF refl]) (auto simp: z)
qed

text \<open>
  C6: the change detection of \<open>render\<close> is a fixed-width comparison. With the six digit
  elements in place, a previous string of six characters and six one-character digits,
  the positions at which \<open>render\<close> flips are exactly the indices 0..5 at which the character
  of the previous string differs from the new digit, and there is none exactly when the
  previous string equals the concatenation of the six new digits.
\<close>

theorem C6_fixed_width_comparison:
  assumes elements: "\<forall>key \<in> set keys. clockElements st key \<noteq> None"
    and previous: "length (previousTime st) = 6"
    and digits: "\<forall>key \<in> set keys. \<exists>c. tp_get timeParts key = Some [c]"
  shows "changed_positions now timeParts st =
           filter (\<lambda>i. previousTime st ! i \<noteq> currentTime timeParts ! i) [0..<6] \<and>
         (changed_positions now timeParts st = []) = (previousTime st = currentTime timeParts)"
proof -
  note eq = changed_positions_compare [OF elements previous digits, of now]
  have "(changed_positions now timeParts st = []) =
        (\<forall>i<6. previousTime st ! i = currentTime timeParts ! i)"
    unfolding eq by (auto simp: filter_empty_conv)
  also have "\<dots> = (previousTime st = currentTime timeParts)"
    using previous currentTime_nth(1) [OF digits] by (auto simp: list_eq_iff_nth_eq)
  finally show ?thesis using eq by blast
qed

theorem C6_fixed_width_comparison_witness:
  "list_all (\<lambda>key. clockElements (initial_display\<lparr>previousTime := ''130509''\<rparr>) key \<noteq> None) keys \<and>
   length (previousTime (initial_display\<lparr>previousTime := ''130509''\<rparr>)) = 6 \<and>
   list_all (\<lambda>key. \<exists>c. tp_get (parts_of ''130510'' []) key = Some [c]) keys \<and>
   changed_positions 0 (parts_of ''130510'' []) (initial_display\<lparr>previousTime := ''130509''\<rparr>) = [4, 5] \<and>
   changed_positions 0 (parts_of ''130509'' []) (initial_display\<lparr>previousTime := ''130509''\<rparr>) = []"
proof -
  let ?st = "initial_display\<lparr>previousTime := ''130509''\<rparr>"
  have e: "\<forall>key \<in> set keys. clockElements ?st key \<noteq> None"
    by (simp add: keys_def initial_display_def)
  have p: "length (previousTime ?st) = 6" by simp
  have d: "\<forall>key \<in> set keys. \<exists>c. tp_get (parts_of ''130510'' []) key = Some [c]"
    by (simp add: keys_def tp_get_def parts_of_def js_index_def)
  have d': "\<forall>key \<in> set keys. \<exists>c. tp_get (parts_of ''130509'' []) key = Some [c]"
    by (simp add: keys_def tp_get_def parts_of_def js_index_def)
  have up: "[0..<6] = [0, 1, 2, 3, 4, 5]" by (simp add: upt_rec)
  have c: "currentTime (parts_of ''130510'' []) = ''130510''"
    by (simp add: currentTime_def keys_def tp_get_def parts_of_def js_index_def js_text_def)
  have c': "currentTime (parts_of ''130509'' []) = ''130509''"
    by (simp add: currentTime_def keys_def tp_get_def parts_of_def js_index_def js_text_def)
  have "changed_positions 0 (parts_of ''130510'' []) ?st = [4, 5]"
    using C6_fixed_width_comparison [OF e p d, of 0] by (simp add: c up)
  moreover have "changed_positions 0 (parts_of ''130509'' []) ?st = []"
    using C6_fixed_width_comparison [OF e p d', of 0] by (simp add: c')
  ultimately show ?thesis using e p d by (simp add: list_all_iff)
qed

text \<open>
  C2: after \<open>resetState\<close> the next render is claimed to flip all six positions for every
  time. The code resets \<open>previousTime\<close> to \<open>'000000'\<close>, so a new digit \<open>0\<close> compares equal
  to it: after a render of 13:05:09 and a reset, a render of 00:00:00 flips no position,
  and a render of 20:35:10 flips only the positions 0, 2, 3 and 4, leaving the element of
  \<open>h2\<close> with the old text \<open>3\<close>.
\<close>

theorem C2_reset_sentinel_equals_zero_digits:
  "changed_positions 1000 (parts_of ''000000'' [])
     (resetState (render 0 (parts_of ''130509'' []) initial_display)) = [] \<and>
   changed_positions 1000 (parts_of ''203510'' [])
     (resetState (render 0 (parts_of ''130509'' []) initial_display)) = [0, 2, 3, 4] \<and>
   map_option textContent (clockElements
     (render 1000 (parts_of ''203510'' [])
        (resetState (render 0 (parts_of ''130509'' []) initial_display))) ''h2'') = Some ''3''"
  by code_simp

text \<open>
  C3: a flip triggered at time T is active at T + 599 and over at T + 601. A second
  trigger of the same position at T2 inside the window is claimed to keep the flip active
  until T2 + 600. The code never cancels the first timeout: with triggers of \<open>s2\<close> at 0
  and at 300, the class is still set at 599 and the callback due at 600 removes it, so at
  700 the position is no longer flipping.
\<close>

theorem C3_stale_timeout_ends_flip:
  "isFlipping ''s2'' 599 (render_at 0 (parts_of ''000001'' []) initial_display) \<and>
   \<not> isFlipping ''s2'' 601 (render_at 0 (parts_of ''000001'' []) initial_display) \<and>
   changed_positions 300 (parts_of ''000002'' [])
     (run_timeouts 300 (render_at 0 (parts_of ''000001'' []) initial_display)) = [5] \<and>
   isFlipping ''s2'' 599
     (render_at 300 (parts_of ''000002'' [])
        (render_at 0 (parts_of ''000001'' []) initial_display)) \<and>
   \<not> isFlipping ''s2'' 700
     (render_at 300 (parts_of ''000002'' [])
        (render_at 0 (parts_of ''000001'' []) initial_display))"
  by code_simp

section \<open>Claims about the scheduler\<close>

text \<open>
  The initial render inside \<open>startClock\<close> is not guarded either: when the formatter throws
  there, \<open>startClock\<close> is left before \<open>setInterval\<close> is reached.
\<close>

lemma startClock_throws:
  "format (getCurrentTimezone (tz_state a)) (settings_is12h a) = Inl e \<Longrightarrow>
   startClock format now a = Inl e"
  by (simp add: startClock_def updateClock_def)

lemma startClock_sets_interval:
  "format (getCurrentTimezone (tz_state a)) (settings_is12h a) = Inr timeParts \<Longrightarrow>
   \<exists>a'. startClock format now a = Inr a' \<and> clockInterval a' = Some 1000 \<and>
        display a' = render_at now timeParts (display a)"
  by (simp add: startClock_def updateClock_def)

text \<open>
  C8: when the formatter throws during a tick of the running interval timer, the tick is
  skipped: \<open>render\<close> is not reached, so the renderer state (previous digit string, elements
  and their text) is unchanged, the error is reported, and the interval stays set; the
  next tick whose formatting succeeds renders on the unchanged state.
\<close>

theorem C8_failed_tick_skipped:
  assumes "format (getCurrentTimezone (tz_state a)) (settings_is12h a) = Inl e"
    and "clockInterval a = Some delay"
  shows "interval_tick format now a = a\<lparr> reported := reported a @ [e] \<rparr> \<and>
         display (interval_tick format now a) = display a \<and>
         clockInterval (interval_tick format now a) = Some delay \<and>
         (\<forall>format' now' timeParts.
            format' (getCurrentTimezone (tz_state a)) (settings_is12h a) = Inr timeParts \<longrightarrow>
              display (interval_tick format' now' (interval_tick format now a)) =
                render_at now' timeParts (display a))"
proof -
  have t: "interval_tick format now a = a\<lparr> reported := reported a @ [e] \<rparr>"
    using assms by (simp add: interval_tick_def updateClock_def)
  show ?thesis
    unfolding t using assms(2) by (simp add: interval_tick_def updateClock_def)
qed

theorem C8_failed_tick_skipped_witness:
  "throwing_format (getCurrentTimezone (tz_state example_app)) (settings_is12h example_app)
     = Inl TypeError \<and>
   clockInterval example_app = Some 1000 \<and>
   display (interval_tick throwing_format 1000 example_app) = display example_app \<and>
   clockInterval (interval_tick throwing_format 1000 example_app) = Some 1000 \<and>
   previousTime (display (interval_tick (getTimeParts example_runtime (Date 47109000)) 2000
      (interval_tick throwing_format 1000 example_app))) = ''130509''"
proof -
  have f: "throwing_format (getCurrentTimezone (tz_state example_app)) (settings_is12h example_app)
     = Inl TypeError"
    by (simp add: throwing_format_def)
  have c: "clockInterval example_app = Some 1000"
    by (simp add: example_app_def)
  have g: "getTimeParts example_runtime (Date 47109000)
             (getCurrentTimezone (tz_state example_app)) (settings_is12h example_app)
           = Inr (parts_of ''130509'' [])"
    by code_simp
  have p: "previousTime (render_at 2000 (parts_of ''130509'' []) (display example_app)) = ''130509''"
    by code_simp
  note t = C8_failed_tick_skipped [of throwing_format example_app TypeError 1000 1000, OF f c]
  from t g have "display (interval_tick (getTimeParts example_runtime (Date 47109000)) 2000
      (interval_tick throwing_format 1000 example_app)) =
      render_at 2000 (parts_of ''130509'' []) (display example_app)"
    by blast
  with p t f c show ?thesis by simp
qed

end
